theory Spec2Isabelle
  imports Complex_Main
begin

section \<open>JavaScript values as the handler sees them\<close>

text \<open>
  A JavaScript number is an IEEE double. The handler never does arithmetic on one: it only
  compares (\<open>Math.max\<close>, \<open>Math.min\<close>), which is exact, so a finite double is modelled by
  the real number it denotes, next to the three special values. The two zeros are
  identified.
\<close>

datatype jsnum = NaN | NegInfinity | Finite real | PosInfinity

text \<open>
  A value of the parsed request body. \<open>undefined\<close> is not a JSON value: a variable or
  field that may be \<open>undefined\<close> has type \<open>jsval option\<close>, with \<open>None\<close> for it.
  An object is the list of its own properties (the first binding of a key is the one read).
\<close>

datatype jsval =
    JNull
  | JBool bool
  | JNum jsnum
  | JStr string
  | JArray "jsval list"
  | JObject "(string \<times> jsval) list"

text \<open>
  Reading a property in a destructuring pattern, \<open>const { k } = v\<close>, for \<open>v\<close> neither
  \<open>null\<close> nor \<open>undefined\<close>: an object gives its property, everything else (a number, a
  string, a boolean, an array) has no property of the two names the handler reads.
\<close>

fun get_field :: "string \<Rightarrow> jsval \<Rightarrow> jsval option" where
  "get_field k (JObject kvs) = map_of kvs k"
| "get_field k v = None"

text \<open>
  ECMAScript \<open>ToNumber\<close>, which \<open>Math.max\<close> applies to its arguments. The conversion of
  strings, arrays and objects is a parameter \<open>ext\<close>.
\<close>

fun ToNumber :: "(jsval \<Rightarrow> jsnum) \<Rightarrow> jsval \<Rightarrow> jsnum" where
  "ToNumber ext JNull = Finite 0"
| "ToNumber ext (JBool b) = Finite (if b then 1 else 0)"
| "ToNumber ext (JNum n) = n"
| "ToNumber ext v = ext v"

text \<open>\<open>Math.max\<close> and \<open>Math.min\<close> of two numbers: \<open>NaN\<close> if either is.\<close>

fun Math_max :: "jsnum \<Rightarrow> jsnum \<Rightarrow> jsnum" where
  "Math_max NaN y = NaN"
| "Math_max x NaN = NaN"
| "Math_max PosInfinity y = PosInfinity"
| "Math_max x PosInfinity = PosInfinity"
| "Math_max NegInfinity y = y"
| "Math_max x NegInfinity = x"
| "Math_max (Finite a) (Finite b) = Finite (max a b)"

fun Math_min :: "jsnum \<Rightarrow> jsnum \<Rightarrow> jsnum" where
  "Math_min NaN y = NaN"
| "Math_min x NaN = NaN"
| "Math_min NegInfinity y = NegInfinity"
| "Math_min x NegInfinity = NegInfinity"
| "Math_min PosInfinity y = y"
| "Math_min x PosInfinity = x"
| "Math_min (Finite a) (Finite b) = Finite (min a b)"

section \<open>The goal-progress handler (api/goals/[id]/progress.js)\<close>

text \<open>
  A goal document, with the fields the handler reads or writes; \<open>rest\<close> holds every
  other field of the document. A field assignment stores the value it is given.
\<close>

record goal =
  goal_id :: string
  userId :: string
  gtype :: string
  currentValue :: "jsval option"
  progress :: "jsval option"
  rest :: "(string \<times> jsval) list"

text \<open>
  The request: \<open>req.method\<close>, \<open>req.query.id\<close> (a string), \<open>req.userId\<close> (set by
  the authentication middleware, which this file does not define; absent without it), the
  bearer token of the \<open>Authorization\<close> header, and \<open>req.body\<close> (\<open>None\<close> when it is \<open>undefined\<close>, as
  it is for a request that carries no body).
\<close>

record request =
  req_method :: string
  query_id :: string
  req_userId :: "string option"
  authorization :: "string option"
  body :: "jsval option"

text \<open>
  The response: the status, the headers the handler sets, and what is sent:
  \<open>.end()\<close>, \<open>.json({ error })\<close>, \<open>.json({ error, details })\<close> or
  \<open>.json({ message, goal })\<close>.
\<close>

datatype payload =
    End
  | Error string
  | ErrorDetails string string
  | Updated string goal

record response =
  status :: nat
  headers :: "(string \<times> string) list"
  payload :: payload

text \<open>
  What the handler calls and this file does not define: \<open>connectDB()\<close> (\<open>Some msg\<close> when
  it rejects with an error of that message), the rejection of \<open>Goal.findOne\<close> for a
  path id and a user id (\<open>Some msg\<close> when the query rejects, as it does for an id that the
  schema cannot cast; \<open>None\<close> when it resolves), \<open>goal.save()\<close> with its pre-save hook
  (\<open>Inl msg\<close> when it rejects, \<open>Inr\<close> the document as saved), and the conversion of
  strings, arrays and objects to numbers.
\<close>

record env =
  connectDB :: "string option"
  findOneRejects :: "string \<Rightarrow> string option \<Rightarrow> string option"
  save :: "goal \<Rightarrow> string + goal"
  toNumberExt :: "jsval \<Rightarrow> jsnum"

text \<open>
  Modelled from the spec: models/Goal.js is not among the sources. \<open>Goal.findOne\<close> with
  the filter \<open>{ _id, userId }\<close> loads the goal matching both the path id and the
  authenticated user id, or \<open>null\<close> if no such document exists; the collection is the
  list of its documents.
\<close>

definition findOne :: "goal list \<Rightarrow> string \<Rightarrow> string option \<Rightarrow> goal option" where
  "findOne db i uid = find (\<lambda>g. goal_id g = i \<and> Some (userId g) = uid) db"

text \<open>
  \<open>await Goal.findOne({ _id: id, userId: req.userId })\<close>: the query either rejects
  (\<open>Inl\<close> the error's message) or resolves with what the lookup finds.
\<close>

definition Goal_findOne ::
  "env \<Rightarrow> goal list \<Rightarrow> string \<Rightarrow> string option \<Rightarrow> string + goal option" where
  "Goal_findOne e db i uid =
     (case findOneRejects e i uid of
        Some msg \<Rightarrow> Inl msg
      | None \<Rightarrow> Inr (findOne db i uid))"

text \<open>
  Modelled from the spec: a successful \<open>save()\<close> persists the change: the saved document
  takes the place of the document of the same id in the collection.
\<close>

definition store :: "goal \<Rightarrow> goal list \<Rightarrow> goal list" where
  "store g db = map (\<lambda>d. if goal_id d = goal_id g then g else d) db"

text \<open>The four headers set at the top of the handler, in the order they are set.\<close>

definition cors_headers :: "(string \<times> string) list" where
  "cors_headers =
     [(''Access-Control-Allow-Credentials'', ''true''),
      (''Access-Control-Allow-Origin'', ''*''),
      (''Access-Control-Allow-Methods'', ''GET,OPTIONS,PATCH,DELETE,POST,PUT''),
      (''Access-Control-Allow-Headers'',
       ''X-CSRF-Token, X-Requested-With, Accept, Accept-Version, Content-Length, Content-MD5, Content-Type, Date, X-Api-Version, Authorization'')]"

definition json :: "nat \<Rightarrow> payload \<Rightarrow> response" where
  "json code p = \<lparr>status = code, headers = cors_headers, payload = p\<rparr>"

text \<open>The \<open>catch\<close> block: status 500 with the error's message as \<open>details\<close>.\<close>

definition server_error :: "string \<Rightarrow> response" where
  "server_error msg = json 500 (ErrorDetails ''Server error'' msg)"

text \<open>
  The message of the TypeError that destructuring \<open>undefined\<close> or \<open>null\<close> throws
  (the wording is V8's).
\<close>

definition destructure_message :: "string \<Rightarrow> string" where
  "destructure_message what =
     ''Cannot destructure property '' @ [CHR 0x27] @ ''currentValue'' @ [CHR 0x27] @
     '' of '' @ [CHR 0x27] @ ''req.body'' @ [CHR 0x27] @ '' as it is '' @ what @ ''.''"

text \<open>
  The handler, from the response it sends and the collection it leaves. Every \<open>await\<close>
  inside the \<open>try\<close> may reject, and destructuring a missing body throws: each lands in
  the \<open>catch\<close> block, whose log line is left out.
\<close>

definition handler :: "env \<Rightarrow> goal list \<Rightarrow> request \<Rightarrow> response \<times> goal list" where
  "handler e db req =
    (if req_method req = ''OPTIONS'' then
       (\<lparr>status = 200, headers = cors_headers, payload = End\<rparr>, db)
     else if req_method req \<noteq> ''PUT'' then
       (json 405 (Error ''Method not allowed''), db)
     else
       (case connectDB e of
          Some msg \<Rightarrow> (server_error msg, db)
        | None \<Rightarrow>
          (case Goal_findOne e db (query_id req) (req_userId req) of
             Inl msg \<Rightarrow> (server_error msg, db)
           | Inr None \<Rightarrow> (json 404 (Error ''Goal not found''), db)
           | Inr (Some g) \<Rightarrow>
             (case body req of
                None \<Rightarrow> (server_error (destructure_message ''undefined''), db)
              | Some JNull \<Rightarrow> (server_error (destructure_message ''null''), db)
              | Some b \<Rightarrow>
                (let cv = get_field ''currentValue'' b;
                     pr = get_field ''progress'' b;
                     g' =
                       (if gtype g = ''numeric'' \<or> gtype g = ''habit'' then
                          (case cv of
                             None \<Rightarrow> g
                           | Some v \<Rightarrow> g\<lparr>currentValue := Some v\<rparr>)
                        else if gtype g = ''milestone'' then
                          (case pr of
                             None \<Rightarrow> g
                           | Some p \<Rightarrow>
                               g\<lparr>progress := Some (JNum
                                  (Math_min (Math_max (ToNumber (toNumberExt e) p) (Finite 0))
                                     (Finite 100)))\<rparr>)
                        else g)
                 in (case save e g' of
                       Inl msg \<Rightarrow> (server_error msg, db)
                     | Inr saved \<Rightarrow>
                         (json 200 (Updated ''Progress updated successfully'' saved),
                          store saved db)))))))"

section \<open>The schedule screen (screens/main/ScheduleScreen.tsx)\<close>

datatype category = physical | mental | financial | social | personal

text \<open>The interface \<open>ScheduleBlock\<close>.\<close>

record block =
  block_id :: string
  block_title :: string
  block_category :: category
  block_startTime :: string
  block_endTime :: string
  block_completed :: bool
  block_goalId :: "string option"

text \<open>The add-task form, \<open>newTask\<close>.\<close>

record task_form =
  title :: string
  category :: category
  startTime :: string
  endTime :: string

text \<open>
  The component's state: the \<open>user\<close> of the authentication context and one field for
  each \<open>useState\<close>. A date is its time value.
\<close>

record screen =
  user :: "string option"
  selectedDate :: int
  schedule :: "block list"
  scheduleId :: string
  loading :: bool
  refreshing :: bool
  showAddModal :: bool
  showDatePicker :: bool
  editingBlock :: "block option"
  newTask :: task_form

text \<open>
  What the service's calls resolve with. \<open>fetchSchedule\<close> reads \<open>data.blocks || []\<close>
  and \<open>data._id || ''\<close>, so both fields may be missing there; \<open>addTask\<close> passes
  \<open>updatedSchedule.blocks\<close> and \<open>updatedSchedule._id\<close> to setters of type
  \<open>ScheduleBlock[]\<close> and \<open>string\<close>.
\<close>

record schedule_data =
  data_blocks :: "block list option"
  data_id :: "string option"

record schedule_doc =
  blocks :: "block list"
  doc_id :: string

text \<open>
  The collaborator \<open>scheduleService\<close>, which this file does not define. The two network
  calls give \<open>Inl msg\<close> when they reject and \<open>Inr None\<close> when they resolve with
  \<open>undefined\<close> or \<open>null\<close>; \<open>generateBlockId\<close> is the id that the call returns.
\<close>

record scheduleService =
  formatDateForAPI :: "int \<Rightarrow> string"
  generateBlockId :: string
  getSchedule :: "string \<Rightarrow> string + schedule_data option"
  updateSchedule :: "string \<Rightarrow> block list \<Rightarrow> string + schedule_doc option"

text \<open>What a call of the screen does to the outside, in order.\<close>

datatype event =
    GetScheduleRequest string
  | UpdateScheduleRequest string "block list"
  | ConsoleError string
  | Alert string string

fun is_network_request :: "event \<Rightarrow> bool" where
  "is_network_request (GetScheduleRequest d) = True"
| "is_network_request (UpdateScheduleRequest d bs) = True"
| "is_network_request ev = False"

text \<open>
  \<open>String.prototype.trim\<close>: white space and line terminators are removed at both ends.
  Of those, a \<open>char\<close> (a code unit below 256) can be a tab, line feed, vertical tab, form
  feed, carriage return, space or no-break space.
\<close>

definition is_white :: "char \<Rightarrow> bool" where
  "is_white c = (c \<in> set [CHR 0x09, CHR 0x0A, CHR 0x0B, CHR 0x0C, CHR 0x0D, CHR 0x20, CHR 0xA0])"

definition trim :: "string \<Rightarrow> string" where
  "trim s = rev (dropWhile is_white (rev (dropWhile is_white s)))"

definition fetchSchedule :: "scheduleService \<Rightarrow> screen \<Rightarrow> screen \<times> event list" where
  "fetchSchedule svc st =
    (if user st = None then (st, [])
     else
       (let dateStr = formatDateForAPI svc (selectedDate st) in
        (case getSchedule svc dateStr of
           Inr (Some d) \<Rightarrow>
             (st\<lparr>schedule := (case data_blocks d of None \<Rightarrow> [] | Some bs \<Rightarrow> bs),
                 scheduleId := (case data_id d of None \<Rightarrow> [] | Some i \<Rightarrow> i),
                 loading := False,
                 refreshing := False\<rparr>,
              [GetScheduleRequest dateStr])
         | _ \<Rightarrow>
             (st\<lparr>loading := False, refreshing := False\<rparr>,
              [GetScheduleRequest dateStr,
               ConsoleError ''Error fetching schedule:'',
               Alert ''Error'' ''Failed to load schedule'']))))"

definition addTask :: "scheduleService \<Rightarrow> screen \<Rightarrow> screen \<times> event list" where
  "addTask svc st =
    (if trim (title (newTask st)) = [] then
       (st, [Alert ''Error'' ''Please enter a task title''])
     else
       (let newBlock =
              \<lparr>block_id = generateBlockId svc,
               block_title = title (newTask st),
               block_category = category (newTask st),
               block_startTime = startTime (newTask st),
               block_endTime = endTime (newTask st),
               block_completed = False,
               block_goalId = None\<rparr>;
            dateStr = formatDateForAPI svc (selectedDate st)
        in
        (case updateSchedule svc dateStr (schedule st @ [newBlock]) of
           Inr (Some updatedSchedule) \<Rightarrow>
             (st\<lparr>schedule := blocks updatedSchedule,
                 scheduleId := doc_id updatedSchedule,
                 showAddModal := False,
                 newTask := \<lparr>title = [], category = personal,
                              startTime = ''09:00'', endTime = ''10:00''\<rparr>\<rparr>,
              [UpdateScheduleRequest dateStr (schedule st @ [newBlock])])
         | _ \<Rightarrow>
             (st,
              [UpdateScheduleRequest dateStr (schedule st @ [newBlock]),
               Alert ''Error'' ''Failed to add task'']))))"

section \<open>Reading the handler's last step, and example data\<close>

text \<open>
  The last step of the handler, \<open>await goal.save()\<close> and the response after it, for the
  document \<open>g'\<close> the handler hands to \<open>save\<close>: a shorthand for the statements below.
\<close>

abbreviation save_and_respond :: "env \<Rightarrow> goal list \<Rightarrow> goal \<Rightarrow> response \<times> goal list" where
  "save_and_respond e db g' \<equiv>
     (case save e g' of
        Inl msg \<Rightarrow> (server_error msg, db)
      | Inr saved \<Rightarrow>
          (json 200 (Updated ''Progress updated successfully'' saved), store saved db))"

text \<open>
  A backend whose connection succeeds, whose lookup resolves and whose \<open>save\<close> persists
  the document as it is,
  and three goals of one collection: a milestone and a habit of alice, a goal of bob with
  a type outside the three.
\<close>

definition example_env :: env where
  "example_env =
     \<lparr>connectDB = None, findOneRejects = (\<lambda>i uid. None), save = Inr,
      toNumberExt = (\<lambda>v. NaN)\<rparr>"

definition milestone_goal :: goal where
  "milestone_goal =
     \<lparr>goal_id = ''g1'', userId = ''alice'', gtype = ''milestone'',
      currentValue = None, progress = Some (JNum (Finite 60)),
      rest = [(''title'', JStr ''Ship'')]\<rparr>"

definition habit_goal :: goal where
  "habit_goal =
     \<lparr>goal_id = ''g2'', userId = ''alice'', gtype = ''habit'',
      currentValue = Some (JNum (Finite 3)), progress = Some (JNum (Finite 30)),
      rest = [(''targetValue'', JNum (Finite 10))]\<rparr>"

definition other_goal :: goal where
  "other_goal =
     \<lparr>goal_id = ''g3'', userId = ''bob'', gtype = ''checklist'',
      currentValue = Some (JNum (Finite 1)), progress = Some (JNum (Finite 5)),
      rest = []\<rparr>"

definition example_db :: "goal list" where
  "example_db = [milestone_goal, habit_goal, other_goal]"

definition example_request :: "string \<Rightarrow> string \<Rightarrow> string \<Rightarrow> jsval option \<Rightarrow> request" where
  "example_request m i uid b =
     \<lparr>req_method = m, query_id = i, req_userId = Some uid, authorization = Some ''token'',
      body = b\<rparr>"

text \<open>A pre-flight request: no token, no user id, no body.\<close>

definition preflight_request :: request where
  "preflight_request =
     \<lparr>req_method = ''OPTIONS'', query_id = ''g1'', req_userId = None, authorization = None,
      body = None\<rparr>"

text \<open>A block, a service that answers with it, a service that fails, and a screen.\<close>

definition example_block :: block where
  "example_block =
     \<lparr>block_id = ''b1'', block_title = ''Run'', block_category = physical,
      block_startTime = ''07:00'', block_endTime = ''08:00'', block_completed = False,
      block_goalId = None\<rparr>"

definition example_service :: scheduleService where
  "example_service =
     \<lparr>formatDateForAPI = (\<lambda>d. ''2024-01-01''),
      generateBlockId = ''b2'',
      getSchedule = (\<lambda>d. Inr (Some \<lparr>data_blocks = Some [example_block], data_id = Some ''s1''\<rparr>)),
      updateSchedule = (\<lambda>d bs. Inr (Some \<lparr>blocks = bs, doc_id = ''s1''\<rparr>))\<rparr>"

definition failing_service :: scheduleService where
  "failing_service =
     \<lparr>formatDateForAPI = (\<lambda>d. ''2024-01-01''),
      generateBlockId = ''b2'',
      getSchedule = (\<lambda>d. Inl ''Network request failed''),
      updateSchedule = (\<lambda>d bs. Inl ''Network request failed'')\<rparr>"

definition example_screen :: screen where
  "example_screen =
     \<lparr>user = Some ''alice'', selectedDate = 0, schedule = [example_block],
      scheduleId = ''s0'', loading = True, refreshing = True, showAddModal = True,
      showDatePicker = False, editingBlock = None,
      newTask = \<lparr>title = [], category = personal, startTime = ''09:00'', endTime = ''10:00''\<rparr>\<rparr>"

section \<open>Facts about the handler and the screen\<close>

text \<open>
  A PUT request whose body can be destructured, on a goal that the lookup found: the
  handler hands to \<open>save\<close> the goal as the type dispatch leaves it.
\<close>
lemma handler_put_body:
  assumes "req_method req = ''PUT''" and "connectDB e = None"
    and "Goal_findOne e db (query_id req) (req_userId req) = Inr (Some g)"
    and "body req = Some b" and "b \<noteq> JNull"
  shows "handler e db req =
    save_and_respond e db
        (if gtype g = ''numeric'' \<or> gtype g = ''habit'' then
           (case get_field ''currentValue'' b of
              None \<Rightarrow> g
            | Some v \<Rightarrow> g\<lparr>currentValue := Some v\<rparr>)
         else if gtype g = ''milestone'' then
           (case get_field ''progress'' b of
              None \<Rightarrow> g
            | Some p \<Rightarrow>
                g\<lparr>progress := Some (JNum
                   (Math_min (Math_max (ToNumber (toNumberExt e) p) (Finite 0)) (Finite 100)))\<rparr>)
         else g)"
  using assms by (cases b) (simp_all add: handler_def Let_def)

lemma handler_no_body:
  assumes "req_method req = ''PUT''" and "connectDB e = None"
    and "Goal_findOne e db (query_id req) (req_userId req) = Inr (Some g)"
    and "body req = None \<or> body req = Some JNull"
  shows "status (fst (handler e db req)) = 500" and "snd (handler e db req) = db"
  using assms by (auto simp add: handler_def server_error_def json_def)

lemma get_field_Some_not_null: "get_field k b = Some v \<Longrightarrow> b \<noteq> JNull"
  by (cases b) simp_all


lemma findOne_Some_owned:
  "findOne db i uid = Some g \<Longrightarrow> g \<in> set db \<and> goal_id g = i \<and> uid = Some (userId g)"
  by (auto simp add: findOne_def find_Some_iff)

lemma trim_Nil: "trim [] = []"
  by (simp add: trim_def)

lemma findOne_example_g1:
  "Goal_findOne example_env example_db ''g1'' (Some ''alice'') = Inr (Some milestone_goal)"
  by (simp add: Goal_findOne_def findOne_def example_env_def example_db_def milestone_goal_def)

lemma findOne_example_g2:
  "Goal_findOne example_env example_db ''g2'' (Some ''alice'') = Inr (Some habit_goal)"
  by (simp add: Goal_findOne_def findOne_def example_env_def example_db_def milestone_goal_def
      habit_goal_def)

lemma findOne_example_g3:
  "Goal_findOne example_env example_db ''g3'' (Some ''bob'') = Inr (Some other_goal)"
  by (simp add: Goal_findOne_def findOne_def example_env_def example_db_def milestone_goal_def
      habit_goal_def other_goal_def)

text \<open>A lookup that rejects ends in the \<open>catch\<close> block, whatever the collection holds.\<close>

lemma handler_lookup_rejected:
  assumes "req_method req = ''PUT''" and "connectDB e = None"
    and "findOneRejects e (query_id req) (req_userId req) = Some msg"
  shows "handler e db req = (server_error msg, db)"
  using assms by (simp add: handler_def Goal_findOne_def)


text \<open>
  What the milestone rule writes is a number between 0 and 100, unless the supplied value
  converts to \<open>NaN\<close>, which is then what is written.
\<close>

lemma milestone_value_in_range:
  "n \<noteq> NaN \<Longrightarrow>
     \<exists>c. Math_min (Math_max n (Finite 0)) (Finite 100) = Finite c \<and> 0 \<le> c \<and> c \<le> 100"
  by (cases n) simp_all

lemma milestone_value_NaN: "Math_min (Math_max NaN (Finite 0)) (Finite 100) = NaN"
  by simp


text \<open>A title of white space only is treated as an empty one.\<close>

lemma addTask_blank_title:
  "trim (title (newTask st)) = [] \<Longrightarrow>
     addTask svc st = (st, [Alert ''Error'' ''Please enter a task title''])"
  by (simp add: addTask_def)

text \<open>Without a logged-in user, \<open>fetchSchedule\<close> returns at once: no request, no change.\<close>

lemma fetchSchedule_no_user: "user st = None \<Longrightarrow> fetchSchedule svc st = (st, [])"
  by (simp add: fetchSchedule_def)


section \<open>The claims\<close>

text \<open>
  C1: for a goal of type milestone, a PUT request supplying a numeric \<open>progress\<close> \<open>p\<close>
  makes the handler write \<open>min (max p 0) 100\<close> to the goal's progress and save that
  document: 100 for \<open>p = 150\<close>, 0 for \<open>p = -20\<close>.
\<close>

theorem milestone_progress_clamped:
  assumes "req_method req = ''PUT''" and "connectDB e = None"
    and "Goal_findOne e db (query_id req) (req_userId req) = Inr (Some g)"
    and "gtype g = ''milestone''"
    and "body req = Some b" and "get_field ''progress'' b = Some (JNum (Finite p))"
  shows "handler e db req =
           save_and_respond e db (g\<lparr>progress := Some (JNum (Finite (min (max p 0) 100)))\<rparr>)
       \<and> (p = 150 \<longrightarrow>
            handler e db req = save_and_respond e db (g\<lparr>progress := Some (JNum (Finite 100))\<rparr>))
       \<and> (p = - 20 \<longrightarrow>
            handler e db req = save_and_respond e db (g\<lparr>progress := Some (JNum (Finite 0))\<rparr>))"
proof -
  have "b \<noteq> JNull" using assms(6) by (rule get_field_Some_not_null)
  from handler_put_body[OF assms(1,2,3,5) this]
  have "handler e db req =
      save_and_respond e db (g\<lparr>progress := Some (JNum (Finite (min (max p 0) 100)))\<rparr>)"
    using assms(4,6) by simp
  then show ?thesis by simp
qed

theorem milestone_progress_clamped_witness:
  "handler example_env example_db
     (example_request ''PUT'' ''g1'' ''alice'' (Some (JObject [(''progress'', JNum (Finite 150))])))
   = (\<lparr>status = 200, headers = cors_headers,
       payload = Updated ''Progress updated successfully''
         (milestone_goal\<lparr>progress := Some (JNum (Finite 100))\<rparr>)\<rparr>,
      [milestone_goal\<lparr>progress := Some (JNum (Finite 100))\<rparr>, habit_goal, other_goal])
   \<and> handler example_env example_db
     (example_request ''PUT'' ''g1'' ''alice'' (Some (JObject [(''progress'', JNum (Finite (- 20)))])))
   = (\<lparr>status = 200, headers = cors_headers,
       payload = Updated ''Progress updated successfully''
         (milestone_goal\<lparr>progress := Some (JNum (Finite 0))\<rparr>)\<rparr>,
      [milestone_goal\<lparr>progress := Some (JNum (Finite 0))\<rparr>, habit_goal, other_goal])"
proof -
  have st: "store (milestone_goal\<lparr>progress := v\<rparr>) example_db
      = [milestone_goal\<lparr>progress := v\<rparr>, habit_goal, other_goal]" for v
    by (simp add: store_def example_db_def milestone_goal_def habit_goal_def other_goal_def)
  have a: "handler example_env example_db
     (example_request ''PUT'' ''g1'' ''alice'' (Some (JObject [(''progress'', JNum (Finite 150))])))
     = save_and_respond example_env example_db (milestone_goal\<lparr>progress := Some (JNum (Finite 100))\<rparr>)"
    using milestone_progress_clamped[of
        "example_request ''PUT'' ''g1'' ''alice'' (Some (JObject [(''progress'', JNum (Finite 150))]))"
        example_env example_db milestone_goal "JObject [(''progress'', JNum (Finite 150))]" 150]
      findOne_example_g1
    by (simp add: example_request_def example_env_def milestone_goal_def)
  have b: "handler example_env example_db
     (example_request ''PUT'' ''g1'' ''alice'' (Some (JObject [(''progress'', JNum (Finite (- 20)))])))
     = save_and_respond example_env example_db (milestone_goal\<lparr>progress := Some (JNum (Finite 0))\<rparr>)"
    using milestone_progress_clamped[of
        "example_request ''PUT'' ''g1'' ''alice'' (Some (JObject [(''progress'', JNum (Finite (- 20)))]))"
        example_env example_db milestone_goal "JObject [(''progress'', JNum (Finite (- 20)))]" "- 20"]
      findOne_example_g1
    by (simp add: example_request_def example_env_def milestone_goal_def)
  show ?thesis
    unfolding a b by (simp add: st json_def example_env_def)
qed



text \<open>
  C3: for a goal of type numeric or habit, a PUT request supplying \<open>currentValue\<close> makes
  the handler overwrite the goal's currentValue with the supplied value and save that
  document (the progress is left to \<open>save\<close>); a request omitting it makes the handler
  save the goal as it was loaded.
\<close>

theorem numeric_habit_currentValue:
  assumes "req_method req = ''PUT''" and "connectDB e = None"
    and "Goal_findOne e db (query_id req) (req_userId req) = Inr (Some g)"
    and "gtype g = ''numeric'' \<or> gtype g = ''habit''"
    and "body req = Some b" and "b \<noteq> JNull"
  shows "(\<forall>v. get_field ''currentValue'' b = Some v \<longrightarrow>
            handler e db req = save_and_respond e db (g\<lparr>currentValue := Some v\<rparr>))
       \<and> (get_field ''currentValue'' b = None \<longrightarrow>
            handler e db req = save_and_respond e db g)"
  using handler_put_body[OF assms(1,2,3,5,6)] assms(4) by auto

theorem numeric_habit_currentValue_witness:
  "handler example_env example_db
      (example_request ''PUT'' ''g2'' ''alice'' (Some (JObject [(''currentValue'', JNum (Finite 7))])))
    = (\<lparr>status = 200, headers = cors_headers,
        payload = Updated ''Progress updated successfully''
          (habit_goal\<lparr>currentValue := Some (JNum (Finite 7))\<rparr>)\<rparr>,
       [milestone_goal, habit_goal\<lparr>currentValue := Some (JNum (Finite 7))\<rparr>, other_goal])
   \<and> handler example_env example_db
      (example_request ''PUT'' ''g2'' ''alice'' (Some (JObject [])))
    = (\<lparr>status = 200, headers = cors_headers,
        payload = Updated ''Progress updated successfully'' habit_goal\<rparr>,
       example_db)"
proof -
  have st: "store (habit_goal\<lparr>currentValue := v\<rparr>) example_db
      = [milestone_goal, habit_goal\<lparr>currentValue := v\<rparr>, other_goal]" for v
    by (simp add: store_def example_db_def milestone_goal_def habit_goal_def other_goal_def)
  have st': "store habit_goal example_db = example_db"
    by (simp add: store_def example_db_def milestone_goal_def habit_goal_def other_goal_def)
  have ty: "gtype habit_goal = ''habit''"
    by (simp add: habit_goal_def)
  have a: "handler example_env example_db
      (example_request ''PUT'' ''g2'' ''alice'' (Some (JObject [(''currentValue'', JNum (Finite 7))])))
     = save_and_respond example_env example_db (habit_goal\<lparr>currentValue := Some (JNum (Finite 7))\<rparr>)"
    using numeric_habit_currentValue[of
        "example_request ''PUT'' ''g2'' ''alice'' (Some (JObject [(''currentValue'', JNum (Finite 7))]))"
        example_env example_db habit_goal "JObject [(''currentValue'', JNum (Finite 7))]"]
      findOne_example_g2 ty
    by (simp add: example_request_def example_env_def)
  have b: "handler example_env example_db
      (example_request ''PUT'' ''g2'' ''alice'' (Some (JObject [])))
     = save_and_respond example_env example_db habit_goal"
    using numeric_habit_currentValue[of
        "example_request ''PUT'' ''g2'' ''alice'' (Some (JObject []))"
        example_env example_db habit_goal "JObject []"]
      findOne_example_g2 ty
    by (simp add: example_request_def example_env_def)
  show ?thesis
    unfolding a b by (simp add: st st' json_def example_env_def)
qed

text \<open>
  C4, as stated, fails at the method OPTIONS, which is not PUT and is answered with the
  empty 200 before the method check.
\<close>

theorem options_is_not_rejected:
  "req_method preflight_request \<noteq> ''PUT''
   \<and> handler example_env example_db preflight_request
       = (\<lparr>status = 200, headers = cors_headers, payload = End\<rparr>, example_db)"
  by (simp add: handler_def preflight_request_def)

text \<open>
  C4, amended: every request that reaches the handler with a method other than PUT and
  other than OPTIONS gets status 405 with the body \<open>{ error: 'Method not allowed' }\<close>,
  whatever its body, and the collection is left as it was.
\<close>

theorem other_methods_not_allowed:
  assumes "req_method req \<noteq> ''PUT''" and "req_method req \<noteq> ''OPTIONS''"
  shows "handler e db req =
           (\<lparr>status = 405, headers = cors_headers, payload = Error ''Method not allowed''\<rparr>, db)"
  using assms by (simp add: handler_def json_def)

theorem other_methods_not_allowed_witness:
  "handler example_env example_db
      (example_request ''POST'' ''g1'' ''alice'' (Some (JObject [(''progress'', JNum (Finite 10))])))
    = (\<lparr>status = 405, headers = cors_headers, payload = Error ''Method not allowed''\<rparr>, example_db)
   \<and> handler example_env example_db (example_request ''GET'' ''g1'' ''alice'' None)
    = (\<lparr>status = 405, headers = cors_headers, payload = Error ''Method not allowed''\<rparr>, example_db)"
  using other_methods_not_allowed[of
      "example_request ''POST'' ''g1'' ''alice'' (Some (JObject [(''progress'', JNum (Finite 10))]))"
      example_env example_db]
    other_methods_not_allowed[of "example_request ''GET'' ''g1'' ''alice'' None"
      example_env example_db]
  by (simp add: example_request_def)



text \<open>
  C6, as stated, fails in three places. A milestone goal with progress 60 and the body
  \<open>{ progress: null }\<close>: \<open>null\<close> is not \<open>undefined\<close>, \<open>Math.max(null, 0)\<close> is 0, and
  the progress 0 is written and saved. A habit goal with currentValue 3 and the body
  \<open>{ currentValue: null }\<close>: the currentValue is overwritten with \<open>null\<close>. A request with
  no body: destructuring \<open>undefined\<close> throws, and the response is the 500 of the
  \<open>catch\<close> block.
\<close>

theorem invalid_field_not_ignored:
  "progress milestone_goal = Some (JNum (Finite 60))
   \<and> handler example_env example_db
        (example_request ''PUT'' ''g1'' ''alice'' (Some (JObject [(''progress'', JNull)])))
      = (\<lparr>status = 200, headers = cors_headers,
          payload = Updated ''Progress updated successfully''
            (milestone_goal\<lparr>progress := Some (JNum (Finite 0))\<rparr>)\<rparr>,
         [milestone_goal\<lparr>progress := Some (JNum (Finite 0))\<rparr>, habit_goal, other_goal])
   \<and> currentValue habit_goal = Some (JNum (Finite 3))
   \<and> handler example_env example_db
        (example_request ''PUT'' ''g2'' ''alice'' (Some (JObject [(''currentValue'', JNull)])))
      = (\<lparr>status = 200, headers = cors_headers,
          payload = Updated ''Progress updated successfully''
            (habit_goal\<lparr>currentValue := Some JNull\<rparr>)\<rparr>,
         [milestone_goal, habit_goal\<lparr>currentValue := Some JNull\<rparr>, other_goal])
   \<and> handler example_env example_db (example_request ''PUT'' ''g1'' ''alice'' None)
      = (\<lparr>status = 500, headers = cors_headers,
          payload = ErrorDetails ''Server error'' (destructure_message ''undefined'')\<rparr>,
         example_db)"
proof -
  note g1 = findOne_example_g1
  note g2 = findOne_example_g2
  have env: "connectDB example_env = None" "save example_env = Inr"
    "toNumberExt example_env = (\<lambda>v. NaN)"
    by (simp_all add: example_env_def)
  have st1: "store (milestone_goal\<lparr>progress := v\<rparr>) example_db
      = [milestone_goal\<lparr>progress := v\<rparr>, habit_goal, other_goal]" for v
    by (simp add: store_def example_db_def milestone_goal_def habit_goal_def other_goal_def)
  have st2: "store (habit_goal\<lparr>currentValue := v\<rparr>) example_db
      = [milestone_goal, habit_goal\<lparr>currentValue := v\<rparr>, other_goal]" for v
    by (simp add: store_def example_db_def milestone_goal_def habit_goal_def other_goal_def)
  have ty: "gtype milestone_goal = ''milestone''" "gtype habit_goal = ''habit''"
    by (simp_all add: milestone_goal_def habit_goal_def)
  have a: "progress milestone_goal = Some (JNum (Finite 60))"
    by (simp add: milestone_goal_def)
  have b: "handler example_env example_db
        (example_request ''PUT'' ''g1'' ''alice'' (Some (JObject [(''progress'', JNull)])))
      = (\<lparr>status = 200, headers = cors_headers,
          payload = Updated ''Progress updated successfully''
            (milestone_goal\<lparr>progress := Some (JNum (Finite 0))\<rparr>)\<rparr>,
         [milestone_goal\<lparr>progress := Some (JNum (Finite 0))\<rparr>, habit_goal, other_goal])"
    by (simp add: handler_def example_request_def env g1 ty st1 json_def Let_def)
  have c: "currentValue habit_goal = Some (JNum (Finite 3))"
    by (simp add: habit_goal_def)
  have d: "handler example_env example_db
        (example_request ''PUT'' ''g2'' ''alice'' (Some (JObject [(''currentValue'', JNull)])))
      = (\<lparr>status = 200, headers = cors_headers,
          payload = Updated ''Progress updated successfully''
            (habit_goal\<lparr>currentValue := Some JNull\<rparr>)\<rparr>,
         [milestone_goal, habit_goal\<lparr>currentValue := Some JNull\<rparr>, other_goal])"
    by (simp add: handler_def example_request_def env g2 ty st2 json_def Let_def)
  have e: "handler example_env example_db (example_request ''PUT'' ''g1'' ''alice'' None)
      = (\<lparr>status = 500, headers = cors_headers,
          payload = ErrorDetails ''Server error'' (destructure_message ''undefined'')\<rparr>,
         example_db)"
    by (simp add: handler_def example_request_def env g1 server_error_def json_def)
  from a b c d e show ?thesis by (intro conjI)
qed

text \<open>
  C6, amended: for a PUT request on an existing owned goal whose body is present (neither
  \<open>undefined\<close> nor \<open>null\<close>) and lacks the field relevant to the goal's type
  (\<open>currentValue\<close> for numeric and habit goals, \<open>progress\<close> for milestone goals), the
  handler writes no field: it saves the goal as it was loaded and, when the save succeeds,
  answers 200 with the saved document.
\<close>

theorem missing_field_ignored:
  assumes "req_method req = ''PUT''" and "connectDB e = None"
    and "Goal_findOne e db (query_id req) (req_userId req) = Inr (Some g)"
    and "body req = Some b" and "b \<noteq> JNull"
    and "gtype g = ''numeric'' \<or> gtype g = ''habit'' \<Longrightarrow> get_field ''currentValue'' b = None"
    and "gtype g = ''milestone'' \<Longrightarrow> get_field ''progress'' b = None"
  shows "handler e db req = save_and_respond e db g
       \<and> (\<forall>saved. save e g = Inr saved \<longrightarrow>
            handler e db req =
              (\<lparr>status = 200, headers = cors_headers,
                payload = Updated ''Progress updated successfully'' saved\<rparr>,
               store saved db))"
proof -
  have "handler e db req = save_and_respond e db g"
    using handler_put_body[OF assms(1,2,3,4,5)] assms(6,7) by auto
  then show ?thesis by (simp add: json_def)
qed

theorem missing_field_ignored_witness:
  "handler example_env example_db
      (example_request ''PUT'' ''g1'' ''alice'' (Some (JObject [])))
    = (\<lparr>status = 200, headers = cors_headers,
        payload = Updated ''Progress updated successfully'' milestone_goal\<rparr>,
       example_db)
   \<and> handler example_env example_db
      (example_request ''PUT'' ''g2'' ''alice'' (Some (JObject [(''progress'', JNum (Finite 99))])))
    = (\<lparr>status = 200, headers = cors_headers,
        payload = Updated ''Progress updated successfully'' habit_goal\<rparr>,
       example_db)"
proof -
  have st: "store milestone_goal example_db = example_db" "store habit_goal example_db = example_db"
    by (simp_all add: store_def example_db_def milestone_goal_def habit_goal_def other_goal_def)
  have ty: "gtype milestone_goal = ''milestone''" "gtype habit_goal = ''habit''"
    by (simp_all add: milestone_goal_def habit_goal_def)
  have a: "handler example_env example_db
      (example_request ''PUT'' ''g1'' ''alice'' (Some (JObject [])))
     = save_and_respond example_env example_db milestone_goal"
    using missing_field_ignored[of
        "example_request ''PUT'' ''g1'' ''alice'' (Some (JObject []))"
        example_env example_db milestone_goal "JObject []"]
      findOne_example_g1 ty
    by (simp add: example_request_def example_env_def)
  have b: "handler example_env example_db
      (example_request ''PUT'' ''g2'' ''alice'' (Some (JObject [(''progress'', JNum (Finite 99))])))
     = save_and_respond example_env example_db habit_goal"
    using missing_field_ignored[of
        "example_request ''PUT'' ''g2'' ''alice'' (Some (JObject [(''progress'', JNum (Finite 99))]))"
        example_env example_db habit_goal "JObject [(''progress'', JNum (Finite 99))]"]
      findOne_example_g2 ty
    by (simp add: example_request_def example_env_def)
  show ?thesis
    unfolding a b by (simp add: st json_def example_env_def)
qed

text \<open>
  C7: the type of the goal selects the update rule, and the rule writes one field. For a
  goal of type numeric or habit, the document handed to \<open>save\<close> is the loaded goal with at
  most its currentValue changed, and a request with another body that supplies the same
  \<open>currentValue\<close> (another \<open>progress\<close>, say) has the same outcome. For a goal of type
  milestone, the same with progress and currentValue exchanged.
\<close>

theorem update_writes_one_field:
  assumes "req_method req = ''PUT''" and "connectDB e = None"
    and "Goal_findOne e db (query_id req) (req_userId req) = Inr (Some g)"
    and "body req = Some b" and "b \<noteq> JNull"
  shows "(gtype g = ''numeric'' \<or> gtype g = ''habit'' \<longrightarrow>
            (\<exists>v. handler e db req = save_and_respond e db (g\<lparr>currentValue := v\<rparr>))
          \<and> (\<forall>b'. b' \<noteq> JNull \<and> get_field ''currentValue'' b' = get_field ''currentValue'' b \<longrightarrow>
                handler e db (req\<lparr>body := Some b'\<rparr>) = handler e db req))
       \<and> (gtype g = ''milestone'' \<longrightarrow>
            (\<exists>v. handler e db req = save_and_respond e db (g\<lparr>progress := v\<rparr>))
          \<and> (\<forall>b'. b' \<noteq> JNull \<and> get_field ''progress'' b' = get_field ''progress'' b \<longrightarrow>
                handler e db (req\<lparr>body := Some b'\<rparr>) = handler e db req))"
proof -
  note h = handler_put_body[OF assms(1,2,3,4,5)]
  have h': "handler e db (req\<lparr>body := Some b'\<rparr>) =
      save_and_respond e db
        (if gtype g = ''numeric'' \<or> gtype g = ''habit'' then
           (case get_field ''currentValue'' b' of
              None \<Rightarrow> g
            | Some v \<Rightarrow> g\<lparr>currentValue := Some v\<rparr>)
         else if gtype g = ''milestone'' then
           (case get_field ''progress'' b' of
              None \<Rightarrow> g
            | Some p \<Rightarrow>
                g\<lparr>progress := Some (JNum
                   (Math_min (Math_max (ToNumber (toNumberExt e) p) (Finite 0)) (Finite 100)))\<rparr>)
         else g)" if "b' \<noteq> JNull" for b'
    using assms(1,2,3) that by (intro handler_put_body) simp_all
  have n1: "\<exists>v. handler e db req = save_and_respond e db (g\<lparr>currentValue := v\<rparr>)"
    if t: "gtype g = ''numeric'' \<or> gtype g = ''habit''"
  proof (cases "get_field ''currentValue'' b")
    case None
    then have "handler e db req = save_and_respond e db (g\<lparr>currentValue := currentValue g\<rparr>)"
      unfolding h using t by simp
    then show ?thesis ..
  next
    case (Some v)
    then have "handler e db req = save_and_respond e db (g\<lparr>currentValue := Some v\<rparr>)"
      unfolding h using t by simp
    then show ?thesis ..
  qed
  have n2: "handler e db (req\<lparr>body := Some b'\<rparr>) = handler e db req"
    if "gtype g = ''numeric'' \<or> gtype g = ''habit''" and "b' \<noteq> JNull"
      and "get_field ''currentValue'' b' = get_field ''currentValue'' b" for b'
    unfolding h h'[OF that(2)] using that(1,3) by simp
  have m1: "\<exists>v. handler e db req = save_and_respond e db (g\<lparr>progress := v\<rparr>)"
    if t: "gtype g = ''milestone''"
  proof (cases "get_field ''progress'' b")
    case None
    then have "handler e db req = save_and_respond e db (g\<lparr>progress := progress g\<rparr>)"
      unfolding h using t by simp
    then show ?thesis ..
  next
    case (Some p)
    then have "handler e db req = save_and_respond e db
        (g\<lparr>progress := Some (JNum
           (Math_min (Math_max (ToNumber (toNumberExt e) p) (Finite 0)) (Finite 100)))\<rparr>)"
      unfolding h using t by simp
    then show ?thesis ..
  qed
  have m2: "handler e db (req\<lparr>body := Some b'\<rparr>) = handler e db req"
    if "gtype g = ''milestone''" and "b' \<noteq> JNull"
      and "get_field ''progress'' b' = get_field ''progress'' b" for b'
    unfolding h h'[OF that(2)] using that(1,3) by simp
  show ?thesis
  proof (intro conjI impI allI)
    assume "gtype g = ''numeric'' \<or> gtype g = ''habit''"
    then show "\<exists>v. handler e db req = save_and_respond e db (g\<lparr>currentValue := v\<rparr>)"
      by (rule n1)
  next
    fix b'
    assume "gtype g = ''numeric'' \<or> gtype g = ''habit''"
      and "b' \<noteq> JNull \<and> get_field ''currentValue'' b' = get_field ''currentValue'' b"
    then show "handler e db (req\<lparr>body := Some b'\<rparr>) = handler e db req"
      using n2[of b'] by simp
  next
    assume "gtype g = ''milestone''"
    then show "\<exists>v. handler e db req = save_and_respond e db (g\<lparr>progress := v\<rparr>)"
      by (rule m1)
  next
    fix b'
    assume "gtype g = ''milestone''"
      and "b' \<noteq> JNull \<and> get_field ''progress'' b' = get_field ''progress'' b"
    then show "handler e db (req\<lparr>body := Some b'\<rparr>) = handler e db req"
      using m2[of b'] by simp
  qed
qed

theorem update_writes_one_field_witness:
  "handler example_env example_db
      (example_request ''PUT'' ''g2'' ''alice''
         (Some (JObject [(''currentValue'', JNum (Finite 7)), (''progress'', JNum (Finite 99))])))
    = handler example_env example_db
      (example_request ''PUT'' ''g2'' ''alice'' (Some (JObject [(''currentValue'', JNum (Finite 7))])))
   \<and> handler example_env example_db
      (example_request ''PUT'' ''g1'' ''alice''
         (Some (JObject [(''currentValue'', JNum (Finite 7)), (''progress'', JNum (Finite 50))])))
    = handler example_env example_db
      (example_request ''PUT'' ''g1'' ''alice'' (Some (JObject [(''progress'', JNum (Finite 50))])))"
proof -
  have ty: "gtype milestone_goal = ''milestone''" "gtype habit_goal = ''habit''"
    by (simp_all add: milestone_goal_def habit_goal_def)
  have upd: "(example_request m i u x)\<lparr>body := y\<rparr> = example_request m i u y" for m i u x y
    by (simp add: example_request_def)
  have sel: "req_method (example_request m i u x) = m" "query_id (example_request m i u x) = i"
    "req_userId (example_request m i u x) = Some u" "body (example_request m i u x) = x" for m i u x
    by (simp_all add: example_request_def)
  have conn: "connectDB example_env = None"
    by (simp add: example_env_def)
  let ?cv = "JObject [(''currentValue'', JNum (Finite 7))]"
  let ?cv' = "JObject [(''currentValue'', JNum (Finite 7)), (''progress'', JNum (Finite 99))]"
  let ?pr = "JObject [(''progress'', JNum (Finite 50))]"
  let ?pr' = "JObject [(''currentValue'', JNum (Finite 7)), (''progress'', JNum (Finite 50))]"
  have "\<forall>b'. b' \<noteq> JNull \<and> get_field ''currentValue'' b' = get_field ''currentValue'' ?cv \<longrightarrow>
      handler example_env example_db ((example_request ''PUT'' ''g2'' ''alice'' (Some ?cv))\<lparr>body := Some b'\<rparr>)
        = handler example_env example_db (example_request ''PUT'' ''g2'' ''alice'' (Some ?cv))"
    using update_writes_one_field[of "example_request ''PUT'' ''g2'' ''alice'' (Some ?cv)"
        example_env example_db habit_goal ?cv]
    by (simp only: sel conn findOne_example_g2 ty) simp
  then have a: "handler example_env example_db (example_request ''PUT'' ''g2'' ''alice'' (Some ?cv'))
        = handler example_env example_db (example_request ''PUT'' ''g2'' ''alice'' (Some ?cv))"
    unfolding upd by (rule allE[where x = ?cv']) simp
  have "\<forall>b'. b' \<noteq> JNull \<and> get_field ''progress'' b' = get_field ''progress'' ?pr \<longrightarrow>
      handler example_env example_db ((example_request ''PUT'' ''g1'' ''alice'' (Some ?pr))\<lparr>body := Some b'\<rparr>)
        = handler example_env example_db (example_request ''PUT'' ''g1'' ''alice'' (Some ?pr))"
    using update_writes_one_field[of "example_request ''PUT'' ''g1'' ''alice'' (Some ?pr)"
        example_env example_db milestone_goal ?pr]
    by (simp only: sel conn findOne_example_g1 ty) simp
  then have b: "handler example_env example_db (example_request ''PUT'' ''g1'' ''alice'' (Some ?pr'))
        = handler example_env example_db (example_request ''PUT'' ''g1'' ''alice'' (Some ?pr))"
    unfolding upd by (rule allE[where x = ?pr']) simp
  from a b show ?thesis ..
qed

text \<open>
  C8: with an empty task title, \<open>addTask\<close> shows the validation alert and does nothing
  else: no network request is issued, and the state (the block list, the schedule id and
  the form among it) is left as it was.
\<close>

theorem addTask_empty_title:
  assumes "title (newTask st) = []"
  shows "addTask svc st = (st, [Alert ''Error'' ''Please enter a task title''])
       \<and> filter is_network_request (snd (addTask svc st)) = []"
  using assms by (simp add: addTask_def trim_Nil)

theorem addTask_empty_title_witness:
  "addTask example_service example_screen
     = (example_screen, [Alert ''Error'' ''Please enter a task title''])
   \<and> schedule (fst (addTask example_service example_screen)) = [example_block]
   \<and> scheduleId (fst (addTask example_service example_screen)) = ''s0''"
proof -
  have "title (newTask example_screen) = []"
    by (simp add: example_screen_def)
  from addTask_empty_title[OF this, of example_service]
  have "addTask example_service example_screen
     = (example_screen, [Alert ''Error'' ''Please enter a task title''])" ..
  then show ?thesis
    by (simp add: example_screen_def)
qed

text \<open>
  C9: a fetch (the user is logged in, so the request is made). When the request succeeds,
  the block list becomes the response's blocks (the empty list if it has none) and the
  schedule id the response's id (the empty string if it has none), and nothing is alerted.
  When it fails, the block list and the schedule id stay as they were and the alert
  'Failed to load schedule' is shown. Both flags are cleared either way.
\<close>

theorem fetchSchedule_outcomes:
  assumes "user st \<noteq> None"
  shows "(\<forall>d. getSchedule svc (formatDateForAPI svc (selectedDate st)) = Inr (Some d) \<longrightarrow>
            fetchSchedule svc st =
              (st\<lparr>schedule := (case data_blocks d of None \<Rightarrow> [] | Some bs \<Rightarrow> bs),
                  scheduleId := (case data_id d of None \<Rightarrow> [] | Some i \<Rightarrow> i),
                  loading := False, refreshing := False\<rparr>,
               [GetScheduleRequest (formatDateForAPI svc (selectedDate st))]))
       \<and> ((\<exists>msg. getSchedule svc (formatDateForAPI svc (selectedDate st)) = Inl msg)
            \<or> getSchedule svc (formatDateForAPI svc (selectedDate st)) = Inr None \<longrightarrow>
            fetchSchedule svc st =
              (st\<lparr>loading := False, refreshing := False\<rparr>,
               [GetScheduleRequest (formatDateForAPI svc (selectedDate st)),
                ConsoleError ''Error fetching schedule:'',
                Alert ''Error'' ''Failed to load schedule'']))"
  using assms by (auto simp add: fetchSchedule_def Let_def)

theorem fetchSchedule_outcomes_witness:
  "fetchSchedule example_service example_screen
     = (example_screen\<lparr>schedule := [example_block], scheduleId := ''s1'',
          loading := False, refreshing := False\<rparr>,
        [GetScheduleRequest ''2024-01-01''])
   \<and> fetchSchedule failing_service example_screen
     = (example_screen\<lparr>loading := False, refreshing := False\<rparr>,
        [GetScheduleRequest ''2024-01-01'', ConsoleError ''Error fetching schedule:'',
         Alert ''Error'' ''Failed to load schedule''])
   \<and> schedule (fst (fetchSchedule failing_service example_screen)) = [example_block]
   \<and> scheduleId (fst (fetchSchedule failing_service example_screen)) = ''s0''"
proof -
  have u: "user example_screen \<noteq> None"
    by (simp add: example_screen_def)
  have a: "fetchSchedule example_service example_screen
     = (example_screen\<lparr>schedule := [example_block], scheduleId := ''s1'',
          loading := False, refreshing := False\<rparr>,
        [GetScheduleRequest ''2024-01-01''])"
    using fetchSchedule_outcomes[OF u, of example_service]
    by (simp add: example_service_def)
  have b: "fetchSchedule failing_service example_screen
     = (example_screen\<lparr>loading := False, refreshing := False\<rparr>,
        [GetScheduleRequest ''2024-01-01'', ConsoleError ''Error fetching schedule:'',
         Alert ''Error'' ''Failed to load schedule''])"
    using fetchSchedule_outcomes[OF u, of failing_service]
    by (simp add: failing_service_def)
  have c: "schedule (fst (fetchSchedule failing_service example_screen)) = [example_block]"
    unfolding b by (simp add: example_screen_def)
  have d: "scheduleId (fst (fetchSchedule failing_service example_screen)) = ''s0''"
    unfolding b by (simp add: example_screen_def)
  from a b c d show ?thesis by (intro conjI)
qed

text \<open>
  C10, as stated, fails for a PUT request that carries no body, on a goal of bob whose type
  is none of the three: the destructuring of \<open>req.body\<close> throws before the type
  dispatch, nothing is saved and the response is the 500 of the \<open>catch\<close> block.
\<close>

theorem unknown_type_without_body:
  "gtype other_goal = ''checklist''
   \<and> Goal_findOne example_env example_db ''g3'' (Some ''bob'') = Inr (Some other_goal)
   \<and> handler example_env example_db (example_request ''PUT'' ''g3'' ''bob'' None)
      = (\<lparr>status = 500, headers = cors_headers,
          payload = ErrorDetails ''Server error'' (destructure_message ''undefined'')\<rparr>,
         example_db)"
proof -
  have env: "connectDB example_env = None"
    by (simp add: example_env_def)
  have a: "gtype other_goal = ''checklist''"
    by (simp add: other_goal_def)
  have b: "handler example_env example_db (example_request ''PUT'' ''g3'' ''bob'' None)
      = (\<lparr>status = 500, headers = cors_headers,
          payload = ErrorDetails ''Server error'' (destructure_message ''undefined'')\<rparr>,
         example_db)"
    by (simp add: handler_def example_request_def env findOne_example_g3 server_error_def
        json_def)
  from a findOne_example_g3 b show ?thesis by (intro conjI)
qed

text \<open>
  C10, amended: for a PUT request whose body is present (neither \<open>undefined\<close> nor
  \<open>null\<close>) on an existing owned goal whose type is none of numeric, habit and milestone,
  the handler writes no field: it saves the goal as it was loaded and, when the save
  succeeds, answers 200 with the saved document. No branch of the type dispatch is an
  error.
\<close>

theorem unknown_type_saved_unmodified:
  assumes "req_method req = ''PUT''" and "connectDB e = None"
    and "Goal_findOne e db (query_id req) (req_userId req) = Inr (Some g)"
    and "gtype g \<noteq> ''numeric''" and "gtype g \<noteq> ''habit''" and "gtype g \<noteq> ''milestone''"
    and "body req = Some b" and "b \<noteq> JNull"
  shows "handler e db req = save_and_respond e db g
       \<and> (\<forall>saved. save e g = Inr saved \<longrightarrow>
            handler e db req =
              (\<lparr>status = 200, headers = cors_headers,
                payload = Updated ''Progress updated successfully'' saved\<rparr>,
               store saved db))"
proof -
  have "handler e db req = save_and_respond e db g"
    unfolding handler_put_body[OF assms(1,2,3,7,8)] using assms(4,5,6) by simp
  then show ?thesis by (simp add: json_def)
qed

theorem unknown_type_saved_unmodified_witness:
  "handler example_env example_db
      (example_request ''PUT'' ''g3'' ''bob''
         (Some (JObject [(''currentValue'', JNum (Finite 7)), (''progress'', JNum (Finite 50))])))
    = (\<lparr>status = 200, headers = cors_headers,
        payload = Updated ''Progress updated successfully'' other_goal\<rparr>,
       example_db)"
proof -
  have st: "store other_goal example_db = example_db"
    by (simp add: store_def example_db_def milestone_goal_def habit_goal_def other_goal_def)
  have ty: "gtype other_goal = ''checklist''"
    by (simp add: other_goal_def)
  have "handler example_env example_db
      (example_request ''PUT'' ''g3'' ''bob''
         (Some (JObject [(''currentValue'', JNum (Finite 7)), (''progress'', JNum (Finite 50))])))
     = save_and_respond example_env example_db other_goal"
    using unknown_type_saved_unmodified[of
        "example_request ''PUT'' ''g3'' ''bob''
           (Some (JObject [(''currentValue'', JNum (Finite 7)), (''progress'', JNum (Finite 50))]))"
        example_env example_db other_goal
        "JObject [(''currentValue'', JNum (Finite 7)), (''progress'', JNum (Finite 50))]"]
      findOne_example_g3 ty
    by (simp add: example_request_def example_env_def)
  then show ?thesis
    by (simp add: st json_def example_env_def)
qed

end
